theory Spec2Isabelle
  imports Main "HOL-Library.Sublist"
begin

section \<open>Python strings\<close>

text \<open>
  Python \<open>str\<close> values are modelled as \<open>string\<close> (lists of 8-bit characters) and read
  as ASCII text: \<open>lower\<close> maps \<open>A..Z\<close> to \<open>a..z\<close> and leaves every other character
  alone, and the whitespace removed by \<open>strip\<close> is the ASCII whitespace of Python
  (tab, line feed, vertical tab, form feed, carriage return, the separators
  \<open>0x1c..0x1f\<close> and the space).
\<close>

definition lower_char :: "char \<Rightarrow> char" where
  "lower_char c =
     (let n = of_char c :: nat in if 65 \<le> n \<and> n \<le> 90 then char_of (n + 32) else c)"

definition lower :: "string \<Rightarrow> string" where
  "lower s = map lower_char s"

definition is_space :: "char \<Rightarrow> bool" where
  "is_space c = (let n = of_char c :: nat in (9 \<le> n \<and> n \<le> 13) \<or> (28 \<le> n \<and> n \<le> 32))"

definition lstrip :: "string \<Rightarrow> string" where
  "lstrip s = dropWhile is_space s"

definition rstrip :: "string \<Rightarrow> string" where
  "rstrip s = rev (dropWhile is_space (rev s))"

definition strip :: "string \<Rightarrow> string" where
  "strip s = rstrip (lstrip s)"

text \<open>\<open>s.startswith(p)\<close>, \<open>s.endswith(p)\<close> and \<open>p in s\<close>.\<close>

fun startswith :: "string \<Rightarrow> string \<Rightarrow> bool" where
  "startswith s [] = True"
| "startswith [] (p # ps) = False"
| "startswith (c # cs) (p # ps) = (c = p \<and> startswith cs ps)"

definition endswith :: "string \<Rightarrow> string \<Rightarrow> bool" where
  "endswith s p = startswith (rev s) (rev p)"

fun contains :: "string \<Rightarrow> string \<Rightarrow> bool" where
  "contains p [] = (p = [])"
| "contains p (c # cs) = (startswith (c # cs) p \<or> contains p cs)"

text \<open>\<open>any(kw in s for kw in kws)\<close>.\<close>

definition any_in :: "string list \<Rightarrow> string \<Rightarrow> bool" where
  "any_in kws s = list_ex (\<lambda>kw. contains kw s) kws"

text \<open>\<open>s.count(p)\<close>: the number of non-overlapping occurrences, scanning from the left.\<close>

fun count_from :: "nat \<Rightarrow> string \<Rightarrow> string \<Rightarrow> nat" where
  "count_from skip p [] = (if p = [] then 1 else 0)"
| "count_from skip p (c # cs) =
     (if 0 < skip then count_from (skip - 1) p cs
      else if startswith (c # cs) p then 1 + count_from (length p - 1) p cs
      else count_from 0 p cs)"

definition str_count :: "string \<Rightarrow> string \<Rightarrow> nat" where
  "str_count s p = count_from 0 p s"

text \<open>\<open>str(n)\<close> for a non-negative integer, and \<open>sep.join(xs)\<close>.\<close>

definition digit_char :: "nat \<Rightarrow> char" where
  "digit_char d = char_of (48 + d)"

fun str_nat :: "nat \<Rightarrow> string" where
  "str_nat n = (if n < 10 then [digit_char n] else str_nat (n div 10) @ [digit_char (n mod 10)])"

declare str_nat.simps [simp del]

fun join :: "string \<Rightarrow> string list \<Rightarrow> string" where
  "join sep [] = []"
| "join sep [x] = x"
| "join sep (x # y # ys) = x @ sep @ join sep (y # ys)"

text \<open>\<open>s.replace(old, new)\<close> for a non-empty \<open>old\<close>.\<close>

fun replace_from :: "nat \<Rightarrow> string \<Rightarrow> string \<Rightarrow> string \<Rightarrow> string" where
  "replace_from skip old new [] = []"
| "replace_from skip old new (c # cs) =
     (if 0 < skip then replace_from (skip - 1) old new cs
      else if startswith (c # cs) old then new @ replace_from (length old - 1) old new cs
      else c # replace_from 0 old new cs)"

definition replace :: "string \<Rightarrow> string \<Rightarrow> string \<Rightarrow> string" where
  "replace s old new = replace_from 0 old new s"

section \<open>The classifier (classifier.py)\<close>

subsection \<open>Data model\<close>

record LocationSignal =
  signal_type :: string
  confidence :: string
  points :: int
  details :: string
  evidence :: string

record PageClassification =
  url :: string
  title :: string
  signals :: "LocationSignal list"
  total_score :: int
  is_location_page :: bool
  url_priority :: string

definition LOCATION_PAGE_THRESHOLD :: int where
  "LOCATION_PAGE_THRESHOLD = 3"

text \<open>
  \<open>classify_html\<close> reads the page through the HTML text itself, through the BeautifulSoup
  tree and through regular-expression searches. The parser and the regular-expression
  engine are libraries, so a page is given to the model as the HTML text together with
  what those libraries return for it: the elements the detectors ask for, in document
  order, and the match lists of the address and coordinate expressions.
\<close>

record anchor =
  a_href :: "string option"  \<comment> \<open>the \<open>href\<close> attribute, \<open>None\<close> when the tag has none\<close>
  a_text :: string  \<comment> \<open>\<open>link.get_text()\<close>\<close>

record iframe =
  if_src :: "string option"
  if_title :: "string option"
  if_name :: "string option"

record form =
  form_str :: string  \<comment> \<open>\<open>str(form)\<close>\<close>
  form_action :: "string option"
  form_text :: string  \<comment> \<open>\<open>form.get_text()\<close>\<close>

record page =
  html :: string
  title_string :: "string option"  \<comment> \<open>\<open>soup.title.string\<close> when both exist\<close>
  html_lang :: string  \<comment> \<open>\<open>lang\<close> of the \<open>html\<close> tag, empty when absent\<close>
  address_matches :: "string list list"
    \<comment> \<open>\<open>pattern.findall(text)\<close> for each address pattern, on the text left after
        removing header, footer and navigation elements\<close>
  lat_matches :: "string list"  \<comment> \<open>\<open>findall\<close> of the \<open>lat\<close>/\<open>latitude\<close> expression on the HTML\<close>
  latlng_matches :: "(string \<times> string) list"  \<comment> \<open>\<open>findall\<close> of the \<open>LatLng(..)\<close> expression\<close>
  latlng_calls :: nat  \<comment> \<open>\<open>len(re.findall(r'latlng\s*\(', html_lower))\<close>\<close>
  anchors :: "anchor list"
  iframes :: "iframe list"
  forms :: "form list"
  ld_json :: "string option list"
    \<comment> \<open>for each JSON-LD script \<open>json.dumps(json.loads(..))\<close>, \<open>None\<close> when that raises\<close>

definition get_or_empty :: "string option \<Rightarrow> string" where
  "get_or_empty a = (case a of None \<Rightarrow> [] | Some s \<Rightarrow> s)"


definition mk_signal :: "string \<Rightarrow> string \<Rightarrow> int \<Rightarrow> string \<Rightarrow> string \<Rightarrow> LocationSignal" where
  "mk_signal t c p d e =
     \<lparr>signal_type = t, confidence = c, points = p, details = d, evidence = e\<rparr>"

subsection \<open>URL patterns\<close>

text \<open>
  The index patterns are regular expressions of three shapes only: a literal, a literal
  anchored by \<open>$\<close>, and a literal followed by \<open>/?$\<close>. They are compiled with
  \<open>re.IGNORECASE\<close> and used with \<open>search\<close>. Without \<open>re.MULTILINE\<close>, \<open>$\<close> matches at
  the end of the string and just before a line feed that ends the string.
\<close>

datatype url_pattern = Anywhere string | AtEnd string | SlashAtEnd string

fun pattern_search :: "url_pattern \<Rightarrow> string \<Rightarrow> bool" where
  "pattern_search (Anywhere x) s = contains (lower x) (lower s)"
| "pattern_search (AtEnd x) s =
     (endswith (lower s) (lower x) \<or> endswith (lower s) (lower x @ [CHR 0x0A]))"
| "pattern_search (SlashAtEnd x) s =
     (endswith (lower s) (lower x) \<or> endswith (lower s) (lower x @ ''/'')
      \<or> endswith (lower s) (lower x @ [CHR 0x0A])
      \<or> endswith (lower s) (lower x @ ''/'' @ [CHR 0x0A]))"

definition INDEX_URL_PATTERNS :: "url_pattern list" where
  "INDEX_URL_PATTERNS =
     [SlashAtEnd ''/locations'', Anywhere ''/locations.html'', Anywhere ''/Our-Locations'',
      SlashAtEnd ''/our-locations'', SlashAtEnd ''/all-locations'', Anywhere ''centersResult'',
      Anywhere ''/coverage'', SlashAtEnd ''/terminals'', AtEnd ''/terminals'',
      SlashAtEnd ''terminals'', SlashAtEnd ''/service-centers'', SlashAtEnd ''/service-center'',
      Anywhere ''service-center-locator'', Anywhere ''/service-locations'',
      SlashAtEnd ''/facilities'', SlashAtEnd ''/branches'', SlashAtEnd ''/find-us'',
      SlashAtEnd ''/terminal-locations'', Anywhere ''/branch-locator'', Anywhere ''/map.html'',
      Anywhere ''servicemap.pdf'', SlashAtEnd ''/locator'', Anywhere ''/find-location'',
      Anywhere ''/store-locator'', Anywhere ''/dealer-locator'']"

definition matches_index_pattern :: "string \<Rightarrow> bool" where
  "matches_index_pattern url_lower = list_ex (\<lambda>p. pattern_search p url_lower) INDEX_URL_PATTERNS"

subsection \<open>Stage 1: disqualifiers\<close>

definition page_title :: "page \<Rightarrow> string" where
  "page_title pg = (case title_string pg of None \<Rightarrow> [] | Some s \<Rightarrow> strip s)"

definition is_error_page :: "page \<Rightarrow> string \<Rightarrow> bool" where
  "is_error_page pg ttl =
     (let title_lower = lower ttl;
          html_lower = lower (html pg)
      in if any_in [''404'', ''not found'', ''page not found'', ''error'', ''oops'',
                    ''page does not exist'', ''page doesn'' @ [CHR 0x27] @ ''t exist''] title_lower
         then True
         else if contains ''<h1>404'' html_lower \<or> contains ''<h1>page not found'' html_lower
         then True
         else if length (html pg) < 2000 then True
         else False)"

definition is_non_english :: "page \<Rightarrow> bool" where
  "is_non_english pg =
     (let lang = lower (html_lang pg) in lang \<noteq> [] \<and> \<not> startswith lang ''en'')"

definition has_location_url :: "string \<Rightarrow> bool" where
  "has_location_url url_lower =
     any_in [''location'', ''terminal'', ''service-center'', ''service-location'',
             ''facility'', ''branch'', ''find-us'', ''depot'', ''yard'',
             ''loadboard'', ''load-board'', ''/map'', ''locator'', ''finder'',
             ''servicemap'', ''branch-locator'', ''store-locator''] url_lower"

definition exclude_page_patterns :: "string list" where
  "exclude_page_patterns =
     [''quote'', ''get-a-quote'', ''instant-quote'', ''request-quote'',
      ''career'', ''job'', ''apply'', ''hiring'',
      ''login'', ''signin'', ''register'', ''signup'',
      ''blog'', ''news'', ''press-release'', ''article'',
      ''investor'', ''annual-report'', ''earnings'',
      ''privacy'', ''terms'', ''cookie'', ''legal'',
      ''cart'', ''checkout'', ''order'']"

definition is_excluded_page_type :: "string \<Rightarrow> string \<Rightarrow> bool" where
  "is_excluded_page_type url_lower ttl =
     (let title_lower = lower ttl
      in if any_in exclude_page_patterns url_lower then True
         else if any_in exclude_page_patterns title_lower then True
         else False)"

subsection \<open>Stage 2: detectors of primary signals\<close>

text \<open>
  The set \<open>addresses_found\<close> is kept as a list without duplicates; its length is the
  size of the set.
\<close>

definition addresses_found :: "page \<Rightarrow> string list" where
  "addresses_found pg =
     remdups (filter (\<lambda>clean. 15 < length clean) (map strip (concat (address_matches pg))))"

definition count_real_addresses :: "page \<Rightarrow> nat \<times> LocationSignal option" where
  "count_real_addresses pg =
     (let found = addresses_found pg; count = length found
      in if 5 \<le> count then
           (count, Some (mk_signal ''ADDRESS_LIST'' ''high'' 10
              (str_nat count @ '' addresses found - location listing page'')
              (join ''; '' (take 3 found))))
         else if 2 \<le> count then
           (count, Some (mk_signal ''ADDRESS_PAIR'' ''medium'' 3
              (str_nat count @ '' addresses found'')
              (join ''; '' (take 2 found))))
         else (count, None))"

definition count_coordinates :: "page \<Rightarrow> nat \<times> LocationSignal option" where
  "count_coordinates pg =
     (let count = length (remdups (lat_matches pg)) + length (remdups (latlng_matches pg))
      in if 3 \<le> count then
           (count, Some (mk_signal ''COORDINATE_DATA'' ''high'' 8
              (str_nat count @ '' coordinate markers found'') ''Multiple lat/lng coordinates''))
         else if 1 \<le> count then
           (count, Some (mk_signal ''COORDINATE_DATA'' ''medium'' 2
              (str_nat count @ '' coordinate(s) found'') ''lat/lng data''))
         else (count, None))"

definition real_map_patterns :: "string list" where
  "real_map_patterns =
     [''google.com/maps/embed'', ''/maps/d/embed'', ''maps.google.com/maps?'',
      ''google.com/maps?q='', ''google.com/maps/place'']"

definition maps_exclude_patterns :: "string list" where
  "maps_exclude_patterns =
     [''googletagmanager'', ''recaptcha'', ''analytics'', ''gtag'',
      ''fonts.googleapis'', ''ajax.googleapis'']"

text \<open>
  \<open>soup.find_all('a', href=re.compile(r'google\.com/maps|maps\.google\.com', re.I))\<close>:
  the anchors whose \<open>href\<close> contains one of the two literals, whatever the letter case.
\<close>

definition is_maps_link :: "anchor \<Rightarrow> bool" where
  "is_maps_link a =
     (case a_href a of None \<Rightarrow> False
      | Some h \<Rightarrow> contains ''google.com/maps'' (lower h) \<or> contains ''maps.google.com'' (lower h))"

definition is_map_embed_iframe :: "iframe \<Rightarrow> bool" where
  "is_map_embed_iframe f =
     (let src = lower (get_or_empty (if_src f))
      in any_in real_map_patterns src \<and> \<not> any_in maps_exclude_patterns src)"

definition detect_google_maps_api :: "page \<Rightarrow> LocationSignal option" where
  "detect_google_maps_api pg =
     (let html_lower = lower (html pg)
      in if contains ''maps.googleapis.com/maps/api/js'' html_lower then
           if any_in [''new google.maps.map'', ''google.maps.marker'', ''google.maps.infowindow'',
                      ''initmap'', ''mapinit'', ''loadmap''] html_lower
           then
             (let marker_count = str_count html_lower ''google.maps.marker''
                    + str_count html_lower ''addmarker'' + str_count html_lower ''new marker'';
                  latlng_count = latlng_calls pg
              in if 3 \<le> marker_count \<or> 3 \<le> latlng_count then
                   Some (mk_signal ''GOOGLE_MAPS_API'' ''high'' 5
                     (''Google Maps API with multiple markers (~''
                        @ str_nat (max marker_count latlng_count) @ '')'')
                     ''maps.googleapis.com with multiple markers'')
                 else
                   Some (mk_signal ''GOOGLE_MAPS_API'' ''low'' 2
                     ''Google Maps API (possibly single marker)'' ''maps.googleapis.com''))
           else None
         else None)"

definition detect_google_maps_strict :: "page \<Rightarrow> LocationSignal option" where
  "detect_google_maps_strict pg =
     (let html_lower = lower (html pg);
          has_real_map = any_in real_map_patterns html_lower;
          maps_link_count = length (filter is_maps_link (anchors pg))
      in if has_real_map then
           (case find is_map_embed_iframe (iframes pg) of
              Some f \<Rightarrow>
                (let pts = (if maps_link_count < 3 then 3 else 5)
                 in Some (mk_signal ''GOOGLE_MAPS_EMBED''
                      (if pts = 3 then ''medium'' else ''high'') pts
                      (''Google Maps embed iframe (links='' @ str_nat maps_link_count @ '')'')
                      (take 80 (lower (get_or_empty (if_src f))))))
            | None \<Rightarrow>
                if 3 \<le> maps_link_count then
                  Some (mk_signal ''GOOGLE_MAPS_LINK'' ''high'' 5
                    (str_nat maps_link_count @ '' Google Maps links'')
                    ''Multiple maps.google.com links'')
                else if maps_link_count = 1 then
                  Some (mk_signal ''GOOGLE_MAPS_LINK'' ''low'' 1
                    ''Single Google Maps link (likely HQ only)'' ''maps.google.com link'')
                else detect_google_maps_api pg)
         else detect_google_maps_api pg)"

definition finder_keywords :: "string list" where
  "finder_keywords =
     [''find location'', ''find terminal'', ''find facility'',
      ''locate'', ''search location'', ''find near'', ''nearby'',
      ''service center locator'', ''terminal locator'']"

definition has_finder_language :: "form \<Rightarrow> bool" where
  "has_finder_language f =
     list_ex (\<lambda>kw. contains kw (lower (form_str f)) \<or> contains kw (lower (form_text f)))
       finder_keywords"

definition has_radius :: "form \<Rightarrow> bool" where
  "has_radius f = any_in [''radius'', ''distance'', ''miles'', ''within''] (lower (form_str f))"

definition is_quote_form :: "form \<Rightarrow> bool" where
  "is_quote_form f =
     list_ex (\<lambda>q. contains q (lower (form_str f))
                  \<or> contains q (lower (get_or_empty (form_action f))))
       [''quote'', ''lead'', ''contact'', ''order'', ''ship'']"

fun detect_location_finder_form_loop :: "form list \<Rightarrow> LocationSignal option" where
  "detect_location_finder_form_loop [] = None"
| "detect_location_finder_form_loop (f # fs) =
     (if has_finder_language f \<and> \<not> is_quote_form f then
        Some (mk_signal ''LOCATION_FINDER'' ''high'' 8
          ''Location finder/locator form'' ''Form with location search capability'')
      else if has_radius f \<and> \<not> is_quote_form f then
        Some (mk_signal ''LOCATION_SEARCH'' ''medium'' 4
          ''Search form with radius/distance'' ''Form with radius search'')
      else detect_location_finder_form_loop fs)"

definition detect_location_finder_form :: "page \<Rightarrow> LocationSignal option" where
  "detect_location_finder_form pg = detect_location_finder_form_loop (forms pg)"

subsection \<open>Stage 3: detectors of secondary signals\<close>

definition json_ld_location_count :: "string option list \<Rightarrow> nat" where
  "json_ld_location_count scripts =
     sum_list (map (\<lambda>script. case script of
         None \<Rightarrow> 0
       | Some dumped \<Rightarrow>
           str_count (lower dumped) ([CHR 0x22] @ ''streetaddress'' @ [CHR 0x22])
           + str_count (lower dumped) ([CHR 0x22] @ ''postalcode'' @ [CHR 0x22])) scripts)"

definition detect_json_ld_strict :: "page \<Rightarrow> LocationSignal option" where
  "detect_json_ld_strict pg =
     (let location_count = json_ld_location_count (ld_json pg)
      in if 4 \<le> location_count then
           Some (mk_signal ''JSON_LD_LOCATIONS'' ''high'' 5
             (''JSON-LD with '' @ str_nat (location_count div 2) @ ''+ locations'')
             ''Structured data with multiple addresses'')
         else None)"

definition upper_char :: "char \<Rightarrow> char" where
  "upper_char c =
     (let n = of_char c :: nat in if 97 \<le> n \<and> n \<le> 122 then char_of (n - 32) else c)"

definition upper :: "string \<Rightarrow> string" where
  "upper s = map upper_char s"

definition is_alpha :: "char \<Rightarrow> bool" where
  "is_alpha c = (let n = of_char c :: nat in (65 \<le> n \<and> n \<le> 90) \<or> (97 \<le> n \<and> n \<le> 122))"

text \<open>\<open>s.title()\<close>: a letter is upper-cased after a non-letter and lower-cased after a letter.\<close>

fun title_from :: "bool \<Rightarrow> string \<Rightarrow> string" where
  "title_from after_letter [] = []"
| "title_from after_letter (c # cs) =
     (if after_letter then lower_char c else upper_char c) # title_from (is_alpha c) cs"

definition str_title :: "string \<Rightarrow> string" where
  "str_title s = title_from False s"

text \<open>
  \<open>MAP_LIBRARIES\<close> in the order of the dictionary; the entry \<open>google_maps\<close> is
  skipped by the loop.
\<close>

definition MAP_LIBRARIES :: "(string \<times> string list) list" where
  "MAP_LIBRARIES =
     [(''google_maps'', [''maps.google.com'', ''maps.googleapis.com'', ''google.com/maps'']),
      (''mapbox'', [''mapbox.com'', ''mapboxgl'', ''mapbox-gl'']),
      (''leaflet'', [''leafletjs.com'', ''L.map'', ''leaflet.js'']),
      (''arcgis'', [''arcgis.com'', ''esri.com'', ''FeatureServer'', ''MapServer''])]"

fun detect_interactive_maps_loop :: "string \<Rightarrow> (string \<times> string list) list \<Rightarrow> LocationSignal list" where
  "detect_interactive_maps_loop html_lower [] = []"
| "detect_interactive_maps_loop html_lower ((lib_name, signatures) # libs) =
     (if lib_name = ''google_maps'' then detect_interactive_maps_loop html_lower libs
      else (case find (\<lambda>sg. contains (lower sg) html_lower) signatures of
              Some sg \<Rightarrow>
                [mk_signal (''MAP_'' @ upper lib_name) ''high'' 3
                   (str_title (replace lib_name ''_'' '' '') @ '' map detected'') sg]
            | None \<Rightarrow> [])
           @ detect_interactive_maps_loop html_lower libs)"

definition detect_interactive_maps :: "page \<Rightarrow> LocationSignal list" where
  "detect_interactive_maps pg = detect_interactive_maps_loop (lower (html pg)) MAP_LIBRARIES"

definition is_location_iframe :: "iframe \<Rightarrow> bool" where
  "is_location_iframe f =
     (let src = lower (get_or_empty (if_src f));
          ttl = lower (get_or_empty (if_title f));
          nm = lower (get_or_empty (if_name f))
      in if contains ''google.com/maps'' src \<or> contains ''maps.google'' src then False
         else list_ex (\<lambda>kw. contains kw src \<or> contains kw ttl \<or> contains kw nm)
                [''map'', ''location'', ''store'', ''dealer'', ''terminal'',
                 ''branch'', ''office'', ''locator''])"

definition detect_location_iframes :: "page \<Rightarrow> LocationSignal list" where
  "detect_location_iframes pg =
     (let location_iframes = filter is_location_iframe (iframes pg)
      in if location_iframes \<noteq> [] then
           [mk_signal ''LOCATION_IFRAME'' ''medium'' 3
              (str_nat (length location_iframes) @ '' location-related iframe(s)'')
              (''Sources: '' @ join '', ''
                 (map (\<lambda>f. take 60 (get_or_empty (if_src f))) (take 2 location_iframes)))]
         else [])"

definition high_value_keywords :: "string list" where
  "high_value_keywords =
     [''servicemap'', ''service-map'', ''terminal-map'', ''location-map'',
      ''coverage-map'', ''network-map'', ''facility-map'', ''directory'']"

definition regular_keywords :: "string list" where
  "regular_keywords = [''location'', ''terminal'', ''service'', ''facility'', ''map'']"

text \<open>The anchors that carry an \<open>href\<close>, with the lower-cased \<open>href\<close> and text.\<close>

definition href_links :: "page \<Rightarrow> (string \<times> string) list" where
  "href_links pg =
     concat (map (\<lambda>a. case a_href a of None \<Rightarrow> [] | Some h \<Rightarrow> [(lower h, lower (a_text a))])
       (anchors pg))"

definition high_value_pdfs :: "page \<Rightarrow> string list" where
  "high_value_pdfs pg =
     map fst (filter (\<lambda>(href, txt). contains ''.pdf'' href \<and> any_in high_value_keywords href)
       (href_links pg))"

definition regular_pdfs :: "page \<Rightarrow> string list" where
  "regular_pdfs pg =
     map fst (filter (\<lambda>(href, txt). contains ''.pdf'' href \<and> \<not> any_in high_value_keywords href
                        \<and> list_ex (\<lambda>kw. contains kw href \<or> contains kw txt) regular_keywords)
       (href_links pg))"

definition detect_pdf_links :: "page \<Rightarrow> LocationSignal list" where
  "detect_pdf_links pg =
     (if high_value_pdfs pg \<noteq> [] then
        [mk_signal ''PDF_SERVICEMAP'' ''high'' 8
           (''Service/location map PDF: '' @ take 50 (hd (high_value_pdfs pg)))
           (join ''; '' (take 2 (high_value_pdfs pg)))]
      else if regular_pdfs pg \<noteq> [] then
        [mk_signal ''PDF_LOCATIONS'' ''medium'' 2
           (str_nat (length (regular_pdfs pg)) @ '' location-related PDF(s)'')
           (join ''; '' (take 2 (regular_pdfs pg)))]
      else [])"

subsection \<open>classify_html\<close>

definition opt_list :: "'a option \<Rightarrow> 'a list" where
  "opt_list x = (case x of None \<Rightarrow> [] | Some v \<Rightarrow> [v])"

text \<open>
  Step 2 of \<open>classify_html\<close>: the five primary checks, in the order of the source. The
  result is the signal list and the flag \<open>has_primary_signal\<close>.
\<close>

definition primary_signals :: "page \<Rightarrow> string \<Rightarrow> string \<Rightarrow> LocationSignal list \<times> bool" where
  "primary_signals pg url_arg url_lower =
     (let is_index_page = matches_index_pattern url_lower;
          s1 = (if is_index_page
                then [mk_signal ''INDEX_PAGE'' ''high'' 15 ''URL is a location index page''
                        (take 80 url_arg)]
                else []);
          (address_count, address_signal) = count_real_addresses pg;
          s2 = (if 5 \<le> address_count then opt_list address_signal
                else if 2 \<le> address_count then opt_list address_signal else []);
          (coord_count, coord_signal) = count_coordinates pg;
          s3 = (if 3 \<le> coord_count then opt_list coord_signal
                else if 1 \<le> coord_count then opt_list coord_signal else []);
          maps_signal = detect_google_maps_strict pg;
          s4 = opt_list maps_signal;
          locator_signal = detect_location_finder_form pg;
          s5 = opt_list locator_signal
      in (s1 @ s2 @ s3 @ s4 @ s5,
          is_index_page \<or> 5 \<le> address_count \<or> 3 \<le> coord_count
          \<or> (case maps_signal of None \<Rightarrow> False | Some m \<Rightarrow> 5 \<le> points m)
          \<or> locator_signal \<noteq> None))"

text \<open>Step 5: the secondary signals, appended in the order of the source.\<close>

definition secondary_signals :: "page \<Rightarrow> LocationSignal list" where
  "secondary_signals pg =
     opt_list (detect_json_ld_strict pg) @ detect_interactive_maps pg
     @ detect_location_iframes pg @ detect_pdf_links pg"

definition disqualified :: "PageClassification \<Rightarrow> string \<Rightarrow> string \<Rightarrow> PageClassification" where
  "disqualified classification d e =
     classification\<lparr>is_location_page := False, total_score := 0,
       signals := [mk_signal ''DISQUALIFIED'' ''high'' 0 d e]\<rparr>"

definition classify_html :: "page \<Rightarrow> string \<Rightarrow> string \<Rightarrow> PageClassification" where
  "classify_html pg url_arg filename =
     (let ttl = page_title pg;
          url_or_filename = (if url_arg \<noteq> [] then url_arg else filename);
          classification = \<lparr>url = url_or_filename, title = ttl, signals = [], total_score = 0,
                             is_location_page = False, url_priority = []\<rparr>;
          url_lower = lower url_or_filename
      in if is_error_page pg ttl then
           disqualified classification ''Error/404 page'' (take 50 ttl)
         else if is_non_english pg \<and> \<not> has_location_url url_lower then
           disqualified classification ''Non-English page'' ''lang attribute or content''
         else if is_excluded_page_type url_lower ttl then
           disqualified classification ''Quote/career/excluded page type'' (take 50 url_arg)
         else
           (let (sigs, has_primary) = primary_signals pg url_arg url_lower;
                url_context = (\<not> has_primary \<and> has_location_url url_lower);
                sigs2 = (if url_context
                         then sigs @ [mk_signal ''URL_CONTEXT'' ''medium'' 3
                                        ''URL suggests location content'' (take 60 url_arg)]
                         else sigs);
                has_primary2 = (has_primary \<or> url_context)
            in if \<not> has_primary2 then
                 classification\<lparr>is_location_page := False, total_score := 0,
                   signals := (if sigs2 \<noteq> [] then sigs2
                               else [mk_signal ''NO_LOCATION_CONTENT'' ''high'' 0
                                       ''No primary location signals found'' []])\<rparr>
               else
                 (let sigs3 = sigs2 @ secondary_signals pg;
                      score = sum_list (map points sigs3)
                  in classification\<lparr>signals := sigs3, total_score := max 0 score,
                       is_location_page := (LOCATION_PAGE_THRESHOLD \<le> score)\<rparr>)))"

text \<open>
  The three disqualifiers of step 1 taken together, and the gate of steps 2 to 4: the flag
  \<open>has_primary_signal\<close> as it stands when step 4 tests it.
\<close>

definition stage1_disqualified :: "page \<Rightarrow> string \<Rightarrow> string \<Rightarrow> bool" where
  "stage1_disqualified pg url_arg filename =
     (let ttl = page_title pg;
          url_lower = lower (if url_arg \<noteq> [] then url_arg else filename)
      in is_error_page pg ttl
         \<or> (is_non_english pg \<and> \<not> has_location_url url_lower)
         \<or> is_excluded_page_type url_lower ttl)"

definition has_primary_signal :: "page \<Rightarrow> string \<Rightarrow> string \<Rightarrow> bool" where
  "has_primary_signal pg url_arg filename =
     (let url_lower = lower (if url_arg \<noteq> [] then url_arg else filename)
      in snd (primary_signals pg url_arg url_lower) \<or> has_location_url url_lower)"

definition sum_points :: "LocationSignal list \<Rightarrow> int" where
  "sum_points sigs = sum_list (map points sigs)"

text \<open>
  The forms on which the loop of \<open>_detect_location_finder_form\<close> returns: either branch
  needs a form that is not a quote form.
\<close>

definition qualifying_form :: "form \<Rightarrow> bool" where
  "qualifying_form f = ((has_finder_language f \<or> has_radius f) \<and> \<not> is_quote_form f)"

subsection \<open>Example pages\<close>

text \<open>
  The examples are HTML documents of more than 2000 characters: a run of 2000 spaces
  followed by the markup. The other fields are what the parser and the regular
  expressions give for that markup.
\<close>

definition padding :: string where
  "padding = replicate 2000 (CHR '' '')"

definition empty_page :: page where
  "empty_page =
     \<lparr>html = padding @ ''<html><head><title>Acme Freight</title></head><body><p>Welcome</p></body></html>'',
      title_string = Some ''Acme Freight'', html_lang = [], address_matches = [[], []],
      lat_matches = [], latlng_matches = [], latlng_calls = 0,
      anchors = [], iframes = [], forms = [], ld_json = []\<rparr>"

text \<open>
  One postal address. Both address expressions match inside it: the first the whole
  address, the second its city, state and ZIP code.
\<close>

definition one_address_page :: page where
  "one_address_page = empty_page
     \<lparr>html := padding @ ''<html><head><title>Acme Freight</title></head><body><p>Head office: 100 Main Street, Springfield, IL 62701</p></body></html>'',
      address_matches := [[''100 Main Street, Springfield, IL 62701''], [''Springfield, IL 62701'']]\<rparr>"

definition five_address_page :: page where
  "five_address_page = empty_page
     \<lparr>html := padding @ ''<html><head><title>Acme Freight</title></head><body><ul><li>100 Main Street, Springfield, IL 62701</li><li>200 Oak Avenue, Columbus, OH 43004</li><li>300 Pine Road, Madison, WI 53703</li><li>400 Elm Drive, Lansing, MI 48901</li><li>500 Lake Way, Duluth, MN 55802</li></ul></body></html>'',
      address_matches :=
        [[''100 Main Street, Springfield, IL 62701'', ''200 Oak Avenue, Columbus, OH 43004'',
          ''300 Pine Road, Madison, WI 53703'', ''400 Elm Drive, Lansing, MI 48901'',
          ''500 Lake Way, Duluth, MN 55802''],
         [''Springfield, IL 62701'', ''Columbus, OH 43004'', ''Madison, WI 53703'',
          ''Lansing, MI 48901'', ''Duluth, MN 55802'']]\<rparr>"

definition single_maps_link_page :: page where
  "single_maps_link_page = empty_page
     \<lparr>html := padding @ ''<html><head><title>Acme Freight</title></head><body><a href=https://www.google.com/maps/place/Acme+HQ>Directions</a></body></html>'',
      anchors := [\<lparr>a_href = Some ''https://www.google.com/maps/place/Acme+HQ'', a_text = ''Directions''\<rparr>]\<rparr>"

definition radius_form :: form where
  "radius_form =
     \<lparr>form_str = ''<form action=/search><input name=zip><select name=radius><option>50</option></select></form>'',
      form_action = Some ''/search'', form_text = ''50''\<rparr>"

definition radius_form_page :: page where
  "radius_form_page = empty_page
     \<lparr>html := padding @ ''<html><head><title>Acme Freight</title></head><body><form action=/search><input name=zip><select name=radius><option>50</option></select></form></body></html>'',
      forms := [radius_form]\<rparr>"

definition finder_form :: form where
  "finder_form =
     \<lparr>form_str = ''<form action=/search><label>Find terminal</label><input name=zip><select name=radius><option>50</option></select></form>'',
      form_action = Some ''/search'', form_text = ''Find terminal50''\<rparr>"

definition finder_form_page :: page where
  "finder_form_page = empty_page
     \<lparr>html := padding @ ''<html><head><title>Acme Freight</title></head><body><form action=/search><label>Find terminal</label><input name=zip><select name=radius><option>50</option></select></form></body></html>'',
      forms := [finder_form]\<rparr>"



text \<open>A form with finder vocabulary and no radius or distance field.\<close>

definition finder_only_form :: form where
  "finder_only_form =
     \<lparr>form_str = ''<form action=/search><label>Find terminal</label><input name=zip></form>'',
      form_action = Some ''/search'', form_text = ''Find terminal''\<rparr>"

definition finder_only_form_page :: page where
  "finder_only_form_page = empty_page
     \<lparr>html := padding @ ''<html><head><title>Acme Freight</title></head><body><form action=/search><label>Find terminal</label><input name=zip></form></body></html>'',
      forms := [finder_only_form]\<rparr>"

definition example_url :: string where
  "example_url = ''https://www.acme.example/company''"

section \<open>The run coordinator (run_full_crawl.py)\<close>

text \<open>
  The checkpoint file holds the dictionary written by \<open>save_checkpoint\<close> (its timestamp
  is left out). A missing file is \<open>None\<close>.
\<close>

record 'r checkpoint =
  completed_count :: nat
  start_idx :: int
  last_idx :: int
  results :: "'r list"

definition save_checkpoint :: "'r list \<Rightarrow> int \<Rightarrow> 'r checkpoint" where
  "save_checkpoint res start =
     \<lparr>completed_count = length res, start_idx = start,
      last_idx = start + int (length res) - 1, results = res\<rparr>"

definition load_checkpoint :: "'r checkpoint option \<Rightarrow> int \<times> 'r list" where
  "load_checkpoint file =
     (case file of
        Some data \<Rightarrow> (last_idx data + 1, results data)
      | None \<Rightarrow> (0, []))"

text \<open>\<open>xs[i:]\<close> for a Python list: a negative \<open>i\<close> counts from the end.\<close>

definition slice_from :: "'a list \<Rightarrow> int \<Rightarrow> 'a list" where
  "slice_from xs i = (if 0 \<le> i then drop (nat i) xs else drop (nat (int (length xs) + i)) xs)"

definition batch_size :: nat where
  "batch_size = 20"

text \<open>
  The batch loop of \<open>run_full_crawl\<close>. Each batch of 20 carriers is crawled, its outcomes
  are appended to \<open>results\<close> and the checkpoint is rewritten. The outcomes of a batch are
  taken in the order of the carriers (\<open>as_completed\<close> may deliver them in another order).
  The second argument is the number of batches the process lives to complete: a run that
  is interrupted stops there, leaving the checkpoint file as last written.
\<close>

fun run_batches ::
  "('c \<Rightarrow> 'r) \<Rightarrow> nat \<Rightarrow> 'c list \<Rightarrow> 'r list \<Rightarrow> int \<Rightarrow> 'r checkpoint option
    \<Rightarrow> 'r checkpoint option \<times> 'r list" where
  "run_batches crawl_single_carrier 0 carriers res start file = (file, res)"
| "run_batches crawl_single_carrier (Suc n) carriers res start file =
     (if carriers = [] then (file, res)
      else
        (let batch = take batch_size carriers;
             batch_results = map crawl_single_carrier batch;
             res' = res @ batch_results;
             file' = Some (save_checkpoint res' start)
         in run_batches crawl_single_carrier n (drop batch_size carriers) res' start file'))"

text \<open>
  \<open>run_full_crawl\<close> up to the end of the batch loop: the result is the checkpoint file
  and the list \<open>results\<close>.
\<close>

definition run_full_crawl ::
  "('c \<Rightarrow> 'r) \<Rightarrow> 'c list \<Rightarrow> 'r checkpoint option \<Rightarrow> int \<Rightarrow> bool \<Rightarrow> nat
    \<Rightarrow> 'r checkpoint option \<times> 'r list" where
  "run_full_crawl crawl_single_carrier all_carriers file start_arg resume batches =
     (let (start, previous_results) =
            (if resume then load_checkpoint file else (start_arg, []));
          carriers = slice_from all_carriers start
      in run_batches crawl_single_carrier batches carriers previous_results start file)"

text \<open>
  Sixty carriers, named by their index in the list, and a crawl that reports the
  carrier it was given.
\<close>

definition sixty_carriers :: "nat list" where
  "sixty_carriers = [0..<60]"

section \<open>Carrier reports (classifier.py)\<close>

subsection \<open>classify_carrier\<close>


record CarrierReport =
  carrier_name :: string
  domain :: string
  total_pages :: nat
  location_pages :: nat
  modalities_found :: "(string \<times> nat) list"
  top_pages :: "PageClassification list"
  recommended_approach :: string










subsection \<open>The JSON output of generate_modality_report\<close>

datatype json = JInt int | JStr string | JArr "json list" | JObj "(string \<times> json) list"

text \<open>\<open>asdict(s)\<close> for a signal.\<close>

definition asdict :: "LocationSignal \<Rightarrow> json" where
  "asdict s =
     JObj [(''signal_type'', JStr (signal_type s)), (''confidence'', JStr (confidence s)),
           (''points'', JInt (points s)), (''details'', JStr (details s)),
           (''evidence'', JStr (evidence s))]"

definition page_json :: "PageClassification \<Rightarrow> json" where
  "page_json p =
     JObj [(''url'', JStr (url p)), (''title'', JStr (title p)), (''score'', JInt (total_score p)),
           (''signals'', JArr (map asdict (filter (\<lambda>s. 0 < points s) (signals p))))]"

definition carrier_json :: "CarrierReport \<Rightarrow> json" where
  "carrier_json r =
     JObj [(''carrier_name'', JStr (carrier_name r)), (''domain'', JStr (domain r)),
           (''total_pages'', JInt (int (total_pages r))),
           (''location_pages'', JInt (int (location_pages r))),
           (''modalities_found'', JObj (map (\<lambda>(k, n). (k, JInt (int n))) (modalities_found r))),
           (''recommended_approach'', JStr (recommended_approach r)),
           (''top_pages'', JArr (map page_json (take 10 (top_pages r))))]"

text \<open>\<open>json_data\<close>: the dictionary of the reports, as the list of its items.\<close>

definition json_data :: "(string \<times> CarrierReport) list \<Rightarrow> json" where
  "json_data reports = JObj (map (\<lambda>(carrier, r). (carrier, carrier_json r)) reports)"





section \<open>Properties\<close>

subsection \<open>Signal points and the stored score\<close>

lemma points_mk_signal [simp]: "points (mk_signal t c p d e) = p"
  by (simp add: mk_signal_def)

lemma count_real_addresses_nonneg:
  "list_all (\<lambda>s. 0 \<le> points s) (opt_list (snd (count_real_addresses pg)))"
  by (simp add: count_real_addresses_def Let_def opt_list_def)

lemma count_coordinates_nonneg:
  "list_all (\<lambda>s. 0 \<le> points s) (opt_list (snd (count_coordinates pg)))"
  by (simp add: count_coordinates_def Let_def opt_list_def)

lemma detect_google_maps_api_nonneg:
  "list_all (\<lambda>s. 0 \<le> points s) (opt_list (detect_google_maps_api pg))"
  by (simp add: detect_google_maps_api_def Let_def opt_list_def)

lemma detect_google_maps_strict_nonneg:
  "list_all (\<lambda>s. 0 \<le> points s) (opt_list (detect_google_maps_strict pg))"
  using detect_google_maps_api_nonneg [of pg]
  by (simp add: detect_google_maps_strict_def Let_def opt_list_def split: option.splits)

lemma finder_loop_nonneg:
  "list_all (\<lambda>s. 0 \<le> points s) (opt_list (detect_location_finder_form_loop fs))"
  by (induction fs) (simp_all add: opt_list_def)

lemma primary_signals_nonneg:
  "list_all (\<lambda>s. 0 \<le> points s) (fst (primary_signals pg u ul))"
  using count_real_addresses_nonneg [of pg] count_coordinates_nonneg [of pg]
    detect_google_maps_strict_nonneg [of pg] finder_loop_nonneg [of "forms pg"]
  by (cases "count_real_addresses pg"; cases "count_coordinates pg")
    (simp add: primary_signals_def Let_def detect_location_finder_form_def)

lemma interactive_maps_loop_nonneg:
  "list_all (\<lambda>s. 0 \<le> points s) (detect_interactive_maps_loop h libs)"
  by (induction h libs rule: detect_interactive_maps_loop.induct) (simp_all split: option.splits)

lemma secondary_signals_nonneg:
  "list_all (\<lambda>s. 0 \<le> points s) (secondary_signals pg)"
  using interactive_maps_loop_nonneg [of "lower (html pg)" MAP_LIBRARIES]
  by (simp add: secondary_signals_def detect_json_ld_strict_def detect_interactive_maps_def
      detect_location_iframes_def detect_pdf_links_def Let_def opt_list_def)

lemma sum_points_nonneg:
  "list_all (\<lambda>s. 0 \<le> points s) xs \<Longrightarrow> 0 \<le> sum_list (map points xs)"
  by (induction xs) simp_all

lemma classify_html_disqualified:
  assumes "stage1_disqualified pg u f"
  shows "total_score (classify_html pg u f) = 0 \<and> \<not> is_location_page (classify_html pg u f)
         \<and> map points (signals (classify_html pg u f)) = [0]"
proof -
  let ?ul = "lower (if u \<noteq> [] then u else f)"
  consider (a) "is_error_page pg (page_title pg)"
    | (b) "\<not> is_error_page pg (page_title pg)" "is_non_english pg \<and> \<not> has_location_url ?ul"
    | (c) "\<not> is_error_page pg (page_title pg)" "\<not> (is_non_english pg \<and> \<not> has_location_url ?ul)"
          "is_excluded_page_type ?ul (page_title pg)"
    using assms unfolding stage1_disqualified_def Let_def by blast
  then show ?thesis
  proof cases
    case a
    then show ?thesis by (simp add: classify_html_def disqualified_def Let_def)
  next
    case b
    then show ?thesis by (simp add: classify_html_def disqualified_def Let_def)
  next
    case c
    then show ?thesis by (simp add: classify_html_def disqualified_def Let_def)
  qed
qed

lemma classify_html_not_disqualified:
  assumes "\<not> stage1_disqualified pg u f"
  shows "classify_html pg u f =
     (let ttl = page_title pg;
          url_or_filename = (if u \<noteq> [] then u else f);
          classification = \<lparr>url = url_or_filename, title = ttl, signals = [], total_score = 0,
                             is_location_page = False, url_priority = []\<rparr>;
          url_lower = lower url_or_filename;
          sigs = fst (primary_signals pg u url_lower);
          has_primary = snd (primary_signals pg u url_lower);
          url_context = (\<not> has_primary \<and> has_location_url url_lower);
          sigs2 = (if url_context
                   then sigs @ [mk_signal ''URL_CONTEXT'' ''medium'' 3
                                  ''URL suggests location content'' (take 60 u)]
                   else sigs)
      in if \<not> (has_primary \<or> url_context) then
           classification\<lparr>is_location_page := False, total_score := 0,
             signals := (if sigs2 \<noteq> [] then sigs2
                         else [mk_signal ''NO_LOCATION_CONTENT'' ''high'' 0
                                 ''No primary location signals found'' []])\<rparr>
         else
           classification\<lparr>signals := sigs2 @ secondary_signals pg,
             total_score := max 0 (sum_list (map points (sigs2 @ secondary_signals pg))),
             is_location_page :=
               (LOCATION_PAGE_THRESHOLD \<le> sum_list (map points (sigs2 @ secondary_signals pg)))\<rparr>)"
proof -
  let ?ul = "lower (if u \<noteq> [] then u else f)"
  have a: "\<not> is_error_page pg (page_title pg)"
    and b: "\<not> (is_non_english pg \<and> \<not> has_location_url ?ul)"
    and c: "\<not> is_excluded_page_type ?ul (page_title pg)"
    using assms unfolding stage1_disqualified_def Let_def by blast+
  show ?thesis
    unfolding classify_html_def Let_def split_def
    using a b c by presburger
qed


lemma classify_html_rejected:
  assumes "\<not> stage1_disqualified pg u f" and "\<not> has_primary_signal pg u f"
  shows "total_score (classify_html pg u f) = 0 \<and> \<not> is_location_page (classify_html pg u f)
         \<and> signals (classify_html pg u f) =
             (if fst (primary_signals pg u (lower (if u \<noteq> [] then u else f))) \<noteq> []
              then fst (primary_signals pg u (lower (if u \<noteq> [] then u else f)))
              else [mk_signal ''NO_LOCATION_CONTENT'' ''high'' 0
                      ''No primary location signals found'' []])"
proof -
  have "\<not> snd (primary_signals pg u (lower (if u \<noteq> [] then u else f)))"
    and "\<not> has_location_url (lower (if u \<noteq> [] then u else f))"
    using assms(2) unfolding has_primary_signal_def Let_def by blast+
  then show ?thesis
    by (simp add: classify_html_not_disqualified [OF assms(1)] Let_def split del: if_split cong del: if_weak_cong)
qed

lemma classify_html_scored:
  assumes "\<not> stage1_disqualified pg u f" and "has_primary_signal pg u f"
  shows "total_score (classify_html pg u f) = max 0 (sum_points (signals (classify_html pg u f)))
         \<and> is_location_page (classify_html pg u f)
             = (LOCATION_PAGE_THRESHOLD \<le> sum_points (signals (classify_html pg u f)))
         \<and> signals (classify_html pg u f) =
             (if \<not> snd (primary_signals pg u (lower (if u \<noteq> [] then u else f)))
              then fst (primary_signals pg u (lower (if u \<noteq> [] then u else f)))
                   @ [mk_signal ''URL_CONTEXT'' ''medium'' 3
                        ''URL suggests location content'' (take 60 u)]
              else fst (primary_signals pg u (lower (if u \<noteq> [] then u else f))))
             @ secondary_signals pg"
proof (cases "snd (primary_signals pg u (lower (if u \<noteq> [] then u else f)))")
  case True
  then show ?thesis
    by (simp add: classify_html_not_disqualified [OF assms(1)] Let_def sum_points_def add.assoc
        split del: if_split cong del: if_weak_cong)
next
  case False
  moreover from this have "has_location_url (lower (if u \<noteq> [] then u else f))"
    using assms(2) unfolding has_primary_signal_def Let_def by blast
  ultimately show ?thesis
    by (simp add: classify_html_not_disqualified [OF assms(1)] Let_def sum_points_def add.assoc
        split del: if_split cong del: if_weak_cong)
qed

lemma classify_html_points_nonneg:
  "list_all (\<lambda>s. 0 \<le> points s) (signals (classify_html pg u f))"
proof (cases "stage1_disqualified pg u f")
  case True
  have "list_all (\<lambda>p. 0 \<le> p) (map points (signals (classify_html pg u f)))"
    using classify_html_disqualified [OF True] by simp
  then show ?thesis by (simp add: list_all_iff)
next
  case nd: False
  have prim: "list_all (\<lambda>s. 0 \<le> points s)
      (fst (primary_signals pg u (lower (if u \<noteq> [] then u else f))))"
    by (rule primary_signals_nonneg)
  show ?thesis
  proof (cases "has_primary_signal pg u f")
    case True
    show ?thesis
      using prim secondary_signals_nonneg [of pg] classify_html_scored [OF nd True] by simp
  next
    case False
    show ?thesis
      using prim classify_html_rejected [OF nd False] by simp
  qed
qed

subsection \<open>Evaluating the example pages\<close>

lemma startswith_pad: "p \<noteq> [] \<Longrightarrow> hd p \<noteq> c \<Longrightarrow> startswith (c # s) p = False"
  by (cases p) auto

lemma contains_pad: "p \<noteq> [] \<Longrightarrow> hd p \<noteq> c \<Longrightarrow> contains p (replicate n c @ s) = contains p s"
  by (induction n) (auto simp: startswith_pad)

lemma lower_pad: "lower (replicate n c @ s) = replicate n (lower_char c) @ lower s"
  by (simp add: lower_def)

lemma count_from_pad:
  "p \<noteq> [] \<Longrightarrow> hd p \<noteq> c \<Longrightarrow> count_from 0 p (replicate n c @ s) = count_from 0 p s"
  by (induction n) (auto simp: startswith_pad)

lemmas eval_simps =
  lower_pad contains_pad count_from_pad lower_def lower_char_def padding_def any_in_def
  is_space_def strip_def lstrip_def rstrip_def str_count_def char_of_eq_iff

lemma not_disq_one: "\<not> stage1_disqualified one_address_page example_url []"
  by (simp add: stage1_disqualified_def one_address_page_def empty_page_def example_url_def
      page_title_def is_error_page_def is_non_english_def is_excluded_page_type_def
      exclude_page_patterns_def has_location_url_def eval_simps)


lemmas stage1_defs =
  stage1_disqualified_def page_title_def is_error_page_def is_non_english_def
  is_excluded_page_type_def exclude_page_patterns_def has_location_url_def example_url_def

lemmas primary_defs =
  has_primary_signal_def primary_signals_def matches_index_pattern_def INDEX_URL_PATTERNS_def
  endswith_def count_real_addresses_def addresses_found_def count_coordinates_def
  detect_google_maps_strict_def detect_google_maps_api_def real_map_patterns_def
  maps_exclude_patterns_def is_maps_link_def is_map_embed_iframe_def
  detect_location_finder_form_def has_finder_language_def finder_keywords_def has_radius_def
  is_quote_form_def get_or_empty_def opt_list_def has_location_url_def example_url_def
  mk_signal_def

lemma not_prim_one: "\<not> has_primary_signal one_address_page example_url []"
  by (simp add: one_address_page_def empty_page_def primary_defs eval_simps Let_def)

lemma prim_sigs_one:
  "map points (fst (primary_signals one_address_page example_url (lower example_url))) = [3]"
  by (simp add: one_address_page_def empty_page_def primary_defs eval_simps Let_def)

lemma not_disq_five: "\<not> stage1_disqualified five_address_page example_url []"
  by (simp add: five_address_page_def empty_page_def stage1_defs eval_simps)

lemma prim_five: "has_primary_signal five_address_page example_url []"
  by (simp add: five_address_page_def empty_page_def primary_defs eval_simps Let_def)

text \<open>
  Claim C9, as amended: every signal that \<open>classify_html\<close> puts in its result has a
  non-negative number of points, so the sum of the points is non-negative and clamping it
  at zero changes nothing. The stored \<open>total_score\<close> is that sum, except on a page that
  passes step 1 and is rejected in step 4 for want of a primary signal: there the score is
  set to 0 and the secondary signals found so far are kept with their points. The
  embedding of \<open>classify_html\<close> nowhere calls the URL-priority computation.
\<close>

theorem C9_points_nonnegative:
  "list_all (\<lambda>s. 0 \<le> points s) (signals (classify_html pg u f))
   \<and> 0 \<le> sum_points (signals (classify_html pg u f))
   \<and> max 0 (sum_points (signals (classify_html pg u f)))
       = sum_points (signals (classify_html pg u f))
   \<and> total_score (classify_html pg u f) =
       (if \<not> stage1_disqualified pg u f \<and> \<not> has_primary_signal pg u f then 0
        else sum_points (signals (classify_html pg u f)))"
proof -
  have nn: "list_all (\<lambda>s. 0 \<le> points s) (signals (classify_html pg u f))"
    by (rule classify_html_points_nonneg)
  then have sum: "0 \<le> sum_points (signals (classify_html pg u f))"
    unfolding sum_points_def by (rule sum_points_nonneg)
  have score: "total_score (classify_html pg u f) =
       (if \<not> stage1_disqualified pg u f \<and> \<not> has_primary_signal pg u f then 0
        else sum_points (signals (classify_html pg u f)))"
  proof (cases "stage1_disqualified pg u f")
    case True
    then show ?thesis
      using classify_html_disqualified [OF True] by (simp add: sum_points_def)
  next
    case nd: False
    show ?thesis
    proof (cases "has_primary_signal pg u f")
      case True
      then show ?thesis using nd sum classify_html_scored [OF nd True] by simp
    next
      case False
      then show ?thesis using nd classify_html_rejected [OF nd False] by simp
    qed
  qed
  from nn sum score show ?thesis by simp
qed

text \<open>
  Witness for C9: the page with five addresses passes the gate, and its stored score is
  the sum of the points of its signals.
\<close>

theorem C9_points_nonnegative_witness:
  "\<not> (\<not> stage1_disqualified five_address_page example_url []
        \<and> \<not> has_primary_signal five_address_page example_url [])
   \<and> total_score (classify_html five_address_page example_url [])
       = sum_points (signals (classify_html five_address_page example_url []))"
  using C9_points_nonnegative [of five_address_page example_url "[]"] prim_five by simp

text \<open>
  Counterexample to C9 as stated: the page with one postal address is rejected in step 4
  with a stored score of 0, while the signal kept in its result carries 3 points.
\<close>

theorem C9_counterexample:
  "total_score (classify_html one_address_page example_url []) = 0
   \<and> sum_points (signals (classify_html one_address_page example_url [])) = 3"
  using classify_html_rejected [OF not_disq_one not_prim_one] prim_sigs_one
  by (auto simp: sum_points_def example_url_def split: if_splits)

subsection \<open>The gate of step 2 on particular evidence\<close>

lemma primary_signals_only_maps:
  assumes "\<not> matches_index_pattern ul" and "length (addresses_found pg) < 2"
    and "lat_matches pg = []" and "latlng_matches pg = []"
    and "detect_google_maps_strict pg = Some s" and "points s < 5"
    and "detect_location_finder_form pg = None"
  shows "primary_signals pg u ul = ([s], False)"
  using assms
  by (simp add: primary_signals_def count_real_addresses_def count_coordinates_def Let_def
      opt_list_def)

lemma accepted_needs_three:
  assumes "is_location_page (classify_html pg u f)"
  shows "3 \<le> sum_points (signals (classify_html pg u f))
         \<and> total_score (classify_html pg u f) = sum_points (signals (classify_html pg u f))"
proof (cases "stage1_disqualified pg u f")
  case True
  then show ?thesis using assms classify_html_disqualified [OF True] by simp
next
  case nd: False
  show ?thesis
  proof (cases "has_primary_signal pg u f")
    case True
    then show ?thesis
      using assms classify_html_scored [OF nd True]
      by (simp add: LOCATION_PAGE_THRESHOLD_def)
  next
    case False
    then show ?thesis using assms classify_html_rejected [OF nd False] by simp
  qed
qed

lemma five_addresses_primary:
  assumes "5 \<le> length (addresses_found pg)"
  shows "snd (primary_signals pg u ul)"
    and "mk_signal ''ADDRESS_LIST'' ''high'' 10
           (str_nat (length (addresses_found pg)) @ '' addresses found - location listing page'')
           (join ''; '' (take 3 (addresses_found pg)))
         \<in> set (fst (primary_signals pg u ul))"
  using assms
  by (simp_all add: primary_signals_def count_real_addresses_def Let_def opt_list_def split_def)

lemma points_le_sum:
  "list_all (\<lambda>s. 0 \<le> points s) xs \<Longrightarrow> x \<in> set xs \<Longrightarrow> points x \<le> sum_list (map points xs)"
proof (induction xs)
  case Nil
  then show ?case by simp
next
  case (Cons y ys)
  have "0 \<le> sum_list (map points ys)"
    using Cons.prems(1) by (simp add: sum_points_nonneg)
  with Cons show ?case by auto
qed

lemma five_addresses_accepted:
  assumes nd: "\<not> stage1_disqualified pg u f" and five: "5 \<le> length (addresses_found pg)"
  shows "is_location_page (classify_html pg u f)"
    and "mk_signal ''ADDRESS_LIST'' ''high'' 10
           (str_nat (length (addresses_found pg)) @ '' addresses found - location listing page'')
           (join ''; '' (take 3 (addresses_found pg)))
         \<in> set (signals (classify_html pg u f))"
proof -
  let ?ul = "lower (if u \<noteq> [] then u else f)"
  let ?s = "mk_signal ''ADDRESS_LIST'' ''high'' 10
           (str_nat (length (addresses_found pg)) @ '' addresses found - location listing page'')
           (join ''; '' (take 3 (addresses_found pg)))"
  have prim: "snd (primary_signals pg u ?ul)" and mem: "?s \<in> set (fst (primary_signals pg u ?ul))"
    using five_addresses_primary [OF five] by blast+
  have hp: "has_primary_signal pg u f"
    using prim by (simp add: has_primary_signal_def Let_def)
  have sigs: "signals (classify_html pg u f) = fst (primary_signals pg u ?ul) @ secondary_signals pg"
    using classify_html_scored [OF nd hp] prim by simp
  show in_sigs: "?s \<in> set (signals (classify_html pg u f))"
    using mem sigs by simp
  have "points ?s \<le> sum_points (signals (classify_html pg u f))"
    unfolding sum_points_def
    by (rule points_le_sum [OF classify_html_points_nonneg in_sigs])
  then have "3 \<le> sum_points (signals (classify_html pg u f))" by simp
  then show "is_location_page (classify_html pg u f)"
    using classify_html_scored [OF nd hp] by (simp add: LOCATION_PAGE_THRESHOLD_def)
qed

lemma no_primary_rejected:
  assumes "\<not> matches_index_pattern (lower (if u \<noteq> [] then u else f))"
    and "\<not> has_location_url (lower (if u \<noteq> [] then u else f))"
    and "length (addresses_found pg) < 5"
    and "length (remdups (lat_matches pg)) + length (remdups (latlng_matches pg)) < 3"
    and "detect_google_maps_strict pg = None \<or> (\<exists>s. detect_google_maps_strict pg = Some s \<and> points s < 5)"
    and "detect_location_finder_form pg = None"
  shows "total_score (classify_html pg u f) = 0 \<and> \<not> is_location_page (classify_html pg u f)"
proof (cases "stage1_disqualified pg u f")
  case True
  then show ?thesis using classify_html_disqualified [OF True] by simp
next
  case nd: False
  have "\<not> snd (primary_signals pg u (lower (if u \<noteq> [] then u else f)))"
    using assms
    by (auto simp: primary_signals_def count_real_addresses_def count_coordinates_def Let_def
        split_def)
  then have "\<not> has_primary_signal pg u f"
    using assms(2) by (simp add: has_primary_signal_def Let_def)
  then show ?thesis using classify_html_rejected [OF nd] by simp
qed

lemma url_example_plain:
  "\<not> matches_index_pattern (lower (if example_url \<noteq> [] then example_url else []))"
  "\<not> has_location_url (lower (if example_url \<noteq> [] then example_url else []))"
  by (simp_all add: example_url_def matches_index_pattern_def INDEX_URL_PATTERNS_def
      has_location_url_def endswith_def eval_simps)

lemma not_disq_maps: "\<not> stage1_disqualified single_maps_link_page example_url []"
  by (simp add: single_maps_link_page_def empty_page_def stage1_defs eval_simps)

lemma maps_single:
  "detect_google_maps_strict single_maps_link_page =
     Some (mk_signal ''GOOGLE_MAPS_LINK'' ''low'' 1
       ''Single Google Maps link (likely HQ only)'' ''maps.google.com link'')"
  by (simp add: single_maps_link_page_def empty_page_def detect_google_maps_strict_def
      real_map_patterns_def is_maps_link_def eval_simps Let_def)

lemma maps_rest:
  "length (addresses_found single_maps_link_page) < 2"
  "lat_matches single_maps_link_page = []" "latlng_matches single_maps_link_page = []"
  "detect_location_finder_form single_maps_link_page = None"
  by (simp_all add: single_maps_link_page_def empty_page_def addresses_found_def
      detect_location_finder_form_def)



lemma five_count: "5 \<le> length (addresses_found five_address_page)"
  by (simp add: five_address_page_def empty_page_def addresses_found_def eval_simps)










text \<open>
  Claim C4, as amended: a page that passes step 1 and whose only evidence is a single
  Google Maps link (1 point), with no index pattern and no location keyword in its URL,
  is rejected in step 4: the stored total score is 0, not the weight of the link, and the
  link signal is kept in the result with its 1 point. Whatever the page, it is accepted
  only when its signals sum to at least 3, and the stored score is then that sum.
\<close>

theorem C4_single_maps_link:
  "(\<not> stage1_disqualified pg u f
     \<and> \<not> matches_index_pattern (lower (if u \<noteq> [] then u else f))
     \<and> \<not> has_location_url (lower (if u \<noteq> [] then u else f))
     \<and> length (addresses_found pg) < 2 \<and> lat_matches pg = [] \<and> latlng_matches pg = []
     \<and> detect_google_maps_strict pg = Some s \<and> points s = 1
     \<and> detect_location_finder_form pg = None
      \<longrightarrow> total_score (classify_html pg u f) = 0
          \<and> \<not> is_location_page (classify_html pg u f)
          \<and> signals (classify_html pg u f) = [s])
   \<and> (is_location_page (classify_html pg' u' f')
      \<longrightarrow> 3 \<le> sum_points (signals (classify_html pg' u' f'))
          \<and> total_score (classify_html pg' u' f') = sum_points (signals (classify_html pg' u' f')))"
proof (intro conjI impI)
  assume a: "\<not> stage1_disqualified pg u f
     \<and> \<not> matches_index_pattern (lower (if u \<noteq> [] then u else f))
     \<and> \<not> has_location_url (lower (if u \<noteq> [] then u else f))
     \<and> length (addresses_found pg) < 2 \<and> lat_matches pg = [] \<and> latlng_matches pg = []
     \<and> detect_google_maps_strict pg = Some s \<and> points s = 1
     \<and> detect_location_finder_form pg = None"
  then have nd: "\<not> stage1_disqualified pg u f" by simp
  have prim: "primary_signals pg u (lower (if u \<noteq> [] then u else f)) = ([s], False)"
    using a by (intro primary_signals_only_maps) simp_all
  then have np: "\<not> has_primary_signal pg u f"
    using a by (simp add: has_primary_signal_def Let_def)
  have r: "total_score (classify_html pg u f) = 0 \<and> \<not> is_location_page (classify_html pg u f)
      \<and> signals (classify_html pg u f) = [s]"
    using classify_html_rejected [OF nd np] prim by simp
  from r show "total_score (classify_html pg u f) = 0" by simp
  from r show "\<not> is_location_page (classify_html pg u f)" by simp
  from r show "signals (classify_html pg u f) = [s]" by simp
next
  assume b: "is_location_page (classify_html pg' u' f')"
  from accepted_needs_three [OF b]
  show "3 \<le> sum_points (signals (classify_html pg' u' f'))"
    and "total_score (classify_html pg' u' f') = sum_points (signals (classify_html pg' u' f'))"
    by simp_all
qed

text \<open>
  Witness for C4: the page with one Google Maps link satisfies the hypotheses of the
  first part, and the accepted page with five addresses those of the second.
\<close>

theorem C4_single_maps_link_witness:
  "(\<not> stage1_disqualified single_maps_link_page example_url []
     \<and> detect_google_maps_strict single_maps_link_page =
         Some (mk_signal ''GOOGLE_MAPS_LINK'' ''low'' 1
           ''Single Google Maps link (likely HQ only)'' ''maps.google.com link''))
   \<and> total_score (classify_html single_maps_link_page example_url []) = 0
   \<and> \<not> is_location_page (classify_html single_maps_link_page example_url [])
   \<and> is_location_page (classify_html five_address_page example_url [])
   \<and> 3 \<le> sum_points (signals (classify_html five_address_page example_url []))"
  using C4_single_maps_link [of single_maps_link_page example_url "[]"
      "mk_signal ''GOOGLE_MAPS_LINK'' ''low'' 1
         ''Single Google Maps link (likely HQ only)'' ''maps.google.com link''"
      five_address_page example_url "[]"]
    not_disq_maps maps_single maps_rest url_example_plain
    five_addresses_accepted(1) [OF not_disq_five five_count]
  by simp

text \<open>
  Counterexample to C4 as stated: for the page whose only evidence is one Google Maps
  link the stored total score is 0, while the weight of the link signal is 1.
\<close>

theorem C4_counterexample:
  "total_score (classify_html single_maps_link_page example_url []) = 0
   \<and> map signal_type (signals (classify_html single_maps_link_page example_url []))
       = [''GOOGLE_MAPS_LINK'']
   \<and> map points (signals (classify_html single_maps_link_page example_url [])) = [1]"
proof -
  have prim: "primary_signals single_maps_link_page example_url
      (lower (if example_url \<noteq> [] then example_url else []))
    = ([mk_signal ''GOOGLE_MAPS_LINK'' ''low'' 1
         ''Single Google Maps link (likely HQ only)'' ''maps.google.com link''], False)"
    using maps_single maps_rest url_example_plain
    by (intro primary_signals_only_maps) simp_all
  then have np: "\<not> has_primary_signal single_maps_link_page example_url []"
    using url_example_plain by (simp add: has_primary_signal_def Let_def)
  show ?thesis
    using classify_html_rejected [OF not_disq_maps np] prim by (simp add: mk_signal_def)
qed

subsection \<open>The location-finder form\<close>

lemma finder_loop_find:
  "detect_location_finder_form_loop fs =
     (case find qualifying_form fs of
        None \<Rightarrow> None
      | Some f \<Rightarrow>
          Some (if has_finder_language f
                then mk_signal ''LOCATION_FINDER'' ''high'' 8
                       ''Location finder/locator form'' ''Form with location search capability''
                else mk_signal ''LOCATION_SEARCH'' ''medium'' 4
                       ''Search form with radius/distance'' ''Form with radius search''))"
  by (induction fs) (auto simp: qualifying_form_def)

lemma locator_signal_primary:
  assumes "detect_location_finder_form pg = Some s"
  shows "snd (primary_signals pg u ul)" and "s \<in> set (fst (primary_signals pg u ul))"
    and "4 \<le> points s"
proof -
  show "snd (primary_signals pg u ul)" and "s \<in> set (fst (primary_signals pg u ul))"
    using assms by (simp_all add: primary_signals_def Let_def opt_list_def split_def)
  show "4 \<le> points s"
    using assms unfolding detect_location_finder_form_def finder_loop_find
    by (auto split: option.splits if_splits)
qed

lemma locator_signal_accepted:
  assumes nd: "\<not> stage1_disqualified pg u f" and loc: "detect_location_finder_form pg = Some s"
  shows "is_location_page (classify_html pg u f)" and "s \<in> set (signals (classify_html pg u f))"
proof -
  let ?ul = "lower (if u \<noteq> [] then u else f)"
  have prim: "snd (primary_signals pg u ?ul)" and mem: "s \<in> set (fst (primary_signals pg u ?ul))"
    and four: "4 \<le> points s"
    using locator_signal_primary [OF loc] by blast+
  have hp: "has_primary_signal pg u f"
    using prim by (simp add: has_primary_signal_def Let_def)
  have sigs: "signals (classify_html pg u f) = fst (primary_signals pg u ?ul) @ secondary_signals pg"
    using classify_html_scored [OF nd hp] prim by simp
  show in_sigs: "s \<in> set (signals (classify_html pg u f))"
    using mem sigs by simp
  have "points s \<le> sum_points (signals (classify_html pg u f))"
    unfolding sum_points_def
    by (rule points_le_sum [OF classify_html_points_nonneg in_sigs])
  then have "3 \<le> sum_points (signals (classify_html pg u f))" using four by simp
  then show "is_location_page (classify_html pg u f)"
    using classify_html_scored [OF nd hp] by (simp add: LOCATION_PAGE_THRESHOLD_def)
qed

lemmas form_defs =
  qualifying_form_def has_finder_language_def finder_keywords_def has_radius_def
  is_quote_form_def get_or_empty_def radius_form_def finder_form_def

lemma radius_form_facts:
  "\<not> has_finder_language radius_form" "has_radius radius_form" "\<not> is_quote_form radius_form"
  by (simp_all add: form_defs eval_simps)

lemma finder_form_facts:
  "has_finder_language finder_form" "has_radius finder_form" "\<not> is_quote_form finder_form"
  by (simp_all add: form_defs eval_simps)

lemma not_disq_radius: "\<not> stage1_disqualified radius_form_page example_url []"
  by (simp add: radius_form_page_def empty_page_def stage1_defs eval_simps)

lemma radius_page_find: "find qualifying_form (forms radius_form_page) = Some radius_form"
  using radius_form_facts
  by (simp add: radius_form_page_def empty_page_def qualifying_form_def)

lemma finder_page_find: "find qualifying_form (forms finder_form_page) = Some finder_form"
  using finder_form_facts
  by (simp add: finder_form_page_def empty_page_def qualifying_form_def)

lemma radius_page_signal:
  "detect_location_finder_form radius_form_page =
     Some (mk_signal ''LOCATION_SEARCH'' ''medium'' 4
             ''Search form with radius/distance'' ''Form with radius search'')"
  using radius_form_facts
  by (simp add: detect_location_finder_form_def finder_loop_find radius_page_find)

lemmas secondary_defs =
  secondary_signals_def detect_json_ld_strict_def json_ld_location_count_def
  detect_interactive_maps_def MAP_LIBRARIES_def detect_location_iframes_def
  is_location_iframe_def detect_pdf_links_def high_value_pdfs_def regular_pdfs_def
  href_links_def opt_list_def

lemma finder_only_form_facts:
  "has_finder_language finder_only_form" "\<not> has_radius finder_only_form"
  "\<not> is_quote_form finder_only_form"
  by (simp_all add: form_defs finder_only_form_def eval_simps)

lemma not_disq_finder_only: "\<not> stage1_disqualified finder_only_form_page example_url []"
  by (simp add: finder_only_form_page_def empty_page_def stage1_defs eval_simps)

lemma finder_only_page_signal:
  "detect_location_finder_form finder_only_form_page =
     Some (mk_signal ''LOCATION_FINDER'' ''high'' 8
             ''Location finder/locator form'' ''Form with location search capability'')"
  using finder_only_form_facts
  by (simp add: detect_location_finder_form_def finder_only_form_page_def empty_page_def)

lemma finder_only_page_primary:
  "primary_signals finder_only_form_page example_url (lower example_url) =
     ([mk_signal ''LOCATION_FINDER'' ''high'' 8
         ''Location finder/locator form'' ''Form with location search capability''], True)"
proof -
  have "matches_index_pattern (lower example_url) = False"
    using url_example_plain(1) by (simp add: example_url_def)
  moreover have "count_real_addresses finder_only_form_page = (0, None)"
    by (simp add: count_real_addresses_def addresses_found_def finder_only_form_page_def
        empty_page_def)
  moreover have "count_coordinates finder_only_form_page = (0, None)"
    by (simp add: count_coordinates_def finder_only_form_page_def empty_page_def)
  moreover have "detect_google_maps_strict finder_only_form_page = None"
    by (simp add: finder_only_form_page_def empty_page_def detect_google_maps_strict_def
        detect_google_maps_api_def real_map_patterns_def eval_simps Let_def)
  ultimately show ?thesis
    by (simp add: primary_signals_def finder_only_page_signal opt_list_def)
qed

lemma finder_only_page_secondary: "secondary_signals finder_only_form_page = []"
  by (simp add: finder_only_form_page_def empty_page_def secondary_defs eval_simps Let_def)

lemma radius_page_primary:
  "primary_signals radius_form_page example_url (lower example_url) =
     ([mk_signal ''LOCATION_SEARCH'' ''medium'' 4
         ''Search form with radius/distance'' ''Form with radius search''], True)"
proof -
  have "matches_index_pattern (lower example_url) = False"
    using url_example_plain(1) by (simp add: example_url_def)
  moreover have "count_real_addresses radius_form_page = (0, None)"
    by (simp add: count_real_addresses_def addresses_found_def radius_form_page_def
        empty_page_def)
  moreover have "count_coordinates radius_form_page = (0, None)"
    by (simp add: count_coordinates_def radius_form_page_def empty_page_def)
  moreover have "detect_google_maps_strict radius_form_page = None"
    by (simp add: radius_form_page_def empty_page_def detect_google_maps_strict_def
        detect_google_maps_api_def real_map_patterns_def eval_simps Let_def)
  ultimately show ?thesis
    by (simp add: primary_signals_def radius_page_signal opt_list_def)
qed

lemma radius_page_secondary: "secondary_signals radius_form_page = []"
  by (simp add: radius_form_page_def empty_page_def secondary_defs eval_simps Let_def)

lemma empty_page_rejected:
  "\<not> is_location_page (classify_html empty_page example_url [])"
proof -
  have "total_score (classify_html empty_page example_url []) = 0
      \<and> \<not> is_location_page (classify_html empty_page example_url [])"
    using url_example_plain
    by (intro no_primary_rejected)
      (simp_all add: empty_page_def addresses_found_def detect_location_finder_form_def
        detect_google_maps_strict_def detect_google_maps_api_def real_map_patterns_def
        eval_simps Let_def)
  then show ?thesis by simp
qed

text \<open>
  Claim C2 against the code. The claim asks for finder vocabulary and a radius or distance
  field in the same form, as the comments in \<open>_detect_location_finder_form\<close> do (``MUST
  have location finder language'', ``MUST have radius/distance''). The code tests the two
  separately. On the page whose only form has finder vocabulary (``Find terminal'') and
  no radius or distance field, \<open>classify_html\<close> emits \<open>LOCATION_FINDER\<close> with 8 points as
  a primary signal and accepts the page with score 8. On the page whose only form has a
  radius field and no finder vocabulary it emits \<open>LOCATION_SEARCH\<close> with 4 points as a
  primary signal and accepts the page with score 4. Neither form is a quote form, and
  the same page without any form is rejected.
\<close>

theorem C2_finder_form_evaluation:
  "forms finder_only_form_page = [finder_only_form]
   \<and> has_finder_language finder_only_form \<and> \<not> has_radius finder_only_form
   \<and> \<not> is_quote_form finder_only_form
   \<and> signals (classify_html finder_only_form_page example_url [])
       = [mk_signal ''LOCATION_FINDER'' ''high'' 8
            ''Location finder/locator form'' ''Form with location search capability'']
   \<and> has_primary_signal finder_only_form_page example_url []
   \<and> is_location_page (classify_html finder_only_form_page example_url [])
   \<and> total_score (classify_html finder_only_form_page example_url []) = 8
   \<and> forms radius_form_page = [radius_form]
   \<and> \<not> has_finder_language radius_form \<and> has_radius radius_form
   \<and> \<not> is_quote_form radius_form
   \<and> signals (classify_html radius_form_page example_url [])
       = [mk_signal ''LOCATION_SEARCH'' ''medium'' 4
            ''Search form with radius/distance'' ''Form with radius search'']
   \<and> has_primary_signal radius_form_page example_url []
   \<and> is_location_page (classify_html radius_form_page example_url [])
   \<and> total_score (classify_html radius_form_page example_url []) = 4
   \<and> forms empty_page = []
   \<and> \<not> is_location_page (classify_html empty_page example_url [])"
proof -
  have ul: "lower (if example_url \<noteq> [] then example_url else []) = lower example_url"
    by (simp add: example_url_def)
  have hp1: "has_primary_signal finder_only_form_page example_url []"
    using finder_only_page_primary by (simp add: has_primary_signal_def ul Let_def)
  have hp2: "has_primary_signal radius_form_page example_url []"
    using radius_page_primary by (simp add: has_primary_signal_def ul Let_def)
  have s1: "signals (classify_html finder_only_form_page example_url [])
       = [mk_signal ''LOCATION_FINDER'' ''high'' 8
            ''Location finder/locator form'' ''Form with location search capability'']"
    using classify_html_scored [OF not_disq_finder_only hp1]
    by (simp add: ul finder_only_page_primary finder_only_page_secondary)
  have s2: "signals (classify_html radius_form_page example_url [])
       = [mk_signal ''LOCATION_SEARCH'' ''medium'' 4
            ''Search form with radius/distance'' ''Form with radius search'']"
    using classify_html_scored [OF not_disq_radius hp2]
    by (simp add: ul radius_page_primary radius_page_secondary)
  have t1: "is_location_page (classify_html finder_only_form_page example_url [])
      \<and> total_score (classify_html finder_only_form_page example_url []) = 8"
    using classify_html_scored [OF not_disq_finder_only hp1]
    by (simp add: s1 sum_points_def LOCATION_PAGE_THRESHOLD_def)
  have t2: "is_location_page (classify_html radius_form_page example_url [])
      \<and> total_score (classify_html radius_form_page example_url []) = 4"
    using classify_html_scored [OF not_disq_radius hp2]
    by (simp add: s2 sum_points_def LOCATION_PAGE_THRESHOLD_def)
  have f: "forms finder_only_form_page = [finder_only_form]"
    "forms radius_form_page = [radius_form]" "forms empty_page = []"
    by (simp_all add: finder_only_form_page_def radius_form_page_def empty_page_def)
  show ?thesis
    using f finder_only_form_facts radius_form_facts hp1 hp2 s1 s2 t1 t2 empty_page_rejected
    by simp
qed

subsection \<open>Checkpoint and resume\<close>

text \<open>
  Claim C6 against the code. Sixty carriers, the crawl of a carrier reporting the carrier
  itself. The first run starts at index 0 and is interrupted after one batch: the
  checkpoint records \<open>last_idx = 19\<close>, and the resumed run starts at index 20 with the
  twenty outcomes preserved, as claimed. That resumed run is interrupted after one batch
  too: it has completed the carriers up to index 39 and holds their forty outcomes, but
  \<open>save_checkpoint\<close> is given the whole list together with the start index 20 and
  records \<open>last_idx = 20 + 40 - 1 = 59\<close>. The next resume therefore starts at index 60
  instead of 40: no carrier is left, and the carriers 40 to 59 are never crawled.
\<close>

theorem C6_resume_after_resumed_run:
  "run_full_crawl (\<lambda>c. c) sixty_carriers None 0 False 1
     = (Some \<lparr>completed_count = 20, start_idx = 0, last_idx = 19, results = [0..<20]\<rparr>,
        [0..<20])
   \<and> load_checkpoint
         (Some \<lparr>completed_count = 20, start_idx = 0, last_idx = 19, results = [0..<20]\<rparr>)
       = (20, [0..<20])
   \<and> run_full_crawl (\<lambda>c. c) sixty_carriers
         (Some \<lparr>completed_count = 20, start_idx = 0, last_idx = 19, results = [0..<20]\<rparr>)
         0 True 1
     = (Some \<lparr>completed_count = 40, start_idx = 20, last_idx = 59, results = [0..<40]\<rparr>,
        [0..<40])
   \<and> load_checkpoint
         (Some \<lparr>completed_count = 40, start_idx = 20, last_idx = 59, results = [0..<40]\<rparr>)
       = (60, [0..<40])
   \<and> run_full_crawl (\<lambda>c. c) sixty_carriers
         (Some \<lparr>completed_count = 40, start_idx = 20, last_idx = 59, results = [0..<40]\<rparr>)
         0 True 3
     = (Some \<lparr>completed_count = 40, start_idx = 20, last_idx = 59, results = [0..<40]\<rparr>,
        [0..<40])"
proof -
  have a: "[0..<40] = [0..<20] @ [20..<40]"
    using upt_add_eq_append [of 0 20 20] by simp
  show ?thesis
    by (simp add: run_full_crawl_def load_checkpoint_def slice_from_def sixty_carriers_def
        batch_size_def save_checkpoint_def numeral_3_eq_3 Let_def a)
qed

subsection \<open>The JSON report\<close>





























end
